theory Spec2Isabelle
  imports Complex_Main "HOL-Library.Stream"
begin

section \<open>The pen surface\<close>

text \<open>
  The program draws on a \<^verbatim>\<open>turtle.Turtle\<close> of the Python standard library. The
  library is not part of the repository, so the surface is modelled by the state the
  library keeps: the position, the orientation, the pen-down flag, the pen style, the
  visibility flag, the strokes on the canvas and, as a history variable, the list of
  primitive calls issued so far.

  The library computes in floating point, which HOL does not have. Everything it
  computes from the orientation is therefore a parameter of the model, a \<open>geometry\<close>
  over a type \<open>'o\<close> of orientations that the model never looks into:
  \<^item> \<open>east\<close>, the orientation of a new turtle;
  \<^item> \<open>advance\<close>, the position \<^verbatim>\<open>forward\<close> reaches;
  \<^item> \<open>rotate\<close>, the orientation after \<^verbatim>\<open>left\<close>;
  \<^item> \<open>sweep\<close>, the position and orientation after \<^verbatim>\<open>circle\<close>;
  \<^item> \<open>turn_to\<close>, the orientation after \<^verbatim>\<open>setheading\<close>: the library rotates
    the orientation vector by the difference between the requested heading and the
    heading it reads, it does not store the request;
  \<^item> \<open>reading\<close>, the number \<^verbatim>\<open>heading()\<close> returns for an orientation: the
    library rounds the angle of the vector to ten decimals and reduces it modulo 360.

  So the heading read after \<^verbatim>\<open>setheading(h)\<close> is \<open>reading (turn_to o h)\<close>, which
  need not be \<open>h\<close>. Every theorem below holds for every geometry. Positions are
  stored as given: \<^verbatim>\<open>goto(p)\<close> assigns \<open>p\<close> and \<^verbatim>\<open>position()\<close> returns
  what is stored. The primitives are total, as the specification assumes of the surface;
  in particular the library's check of colour channels against its colour mode is not
  modelled.
\<close>

type_synonym point = "real \<times> real"

type_synonym RGBColor = "int \<times> int \<times> int"

datatype call =
    Penup
  | Pendown
  | Goto point
  | Forward real
  | Left real
  | Circle real real
  | Setheading real
  | Pensize int
  | Pencolor RGBColor
  | Hideturtle
  | Clear
  | Home

datatype 'o stroke =
    Line point point int RGBColor
  | Arc point 'o real real int RGBColor

record 'o geometry =
  east :: 'o
  advance :: "point \<Rightarrow> 'o \<Rightarrow> real \<Rightarrow> point"
  rotate :: "'o \<Rightarrow> real \<Rightarrow> 'o"
  sweep :: "point \<Rightarrow> 'o \<Rightarrow> real \<Rightarrow> real \<Rightarrow> point \<times> 'o"
  turn_to :: "'o \<Rightarrow> real \<Rightarrow> 'o"
  reading :: "'o \<Rightarrow> real"

record 'o turtle =
  position :: point
  orient :: 'o
  isdown :: bool
  pen_width :: int
  pen_color :: RGBColor
  isvisible :: bool
  strokes :: "'o stroke list"
  calls :: "call list"

definition heading :: "'o geometry \<Rightarrow> 'o turtle \<Rightarrow> real" where
  "heading G t = reading G (orient t)"

definition penup :: "'o turtle \<Rightarrow> 'o turtle" where
  "penup t = t\<lparr>isdown := False, calls := calls t @ [Penup]\<rparr>"

definition pendown :: "'o turtle \<Rightarrow> 'o turtle" where
  "pendown t = t\<lparr>isdown := True, calls := calls t @ [Pendown]\<rparr>"

definition goto :: "'o turtle \<Rightarrow> point \<Rightarrow> 'o turtle" where
  "goto t p =
     t\<lparr>position := p,
       strokes := (if isdown t
                   then strokes t @ [Line (position t) p (pen_width t) (pen_color t)]
                   else strokes t),
       calls := calls t @ [Goto p]\<rparr>"

definition forward :: "'o geometry \<Rightarrow> 'o turtle \<Rightarrow> real \<Rightarrow> 'o turtle" where
  "forward G t d =
     t\<lparr>position := advance G (position t) (orient t) d,
       strokes := (if isdown t
                   then strokes t @ [Line (position t) (advance G (position t) (orient t) d)
                                       (pen_width t) (pen_color t)]
                   else strokes t),
       calls := calls t @ [Forward d]\<rparr>"

definition left :: "'o geometry \<Rightarrow> 'o turtle \<Rightarrow> real \<Rightarrow> 'o turtle" where
  "left G t a = t\<lparr>orient := rotate G (orient t) a, calls := calls t @ [Left a]\<rparr>"

definition circle :: "'o geometry \<Rightarrow> 'o turtle \<Rightarrow> real \<Rightarrow> real \<Rightarrow> 'o turtle" where
  "circle G t r e =
     t\<lparr>position := fst (sweep G (position t) (orient t) r e),
       orient := snd (sweep G (position t) (orient t) r e),
       strokes := (if isdown t
                   then strokes t @ [Arc (position t) (orient t) r e (pen_width t) (pen_color t)]
                   else strokes t),
       calls := calls t @ [Circle r e]\<rparr>"

definition setheading :: "'o geometry \<Rightarrow> 'o turtle \<Rightarrow> real \<Rightarrow> 'o turtle" where
  "setheading G t h = t\<lparr>orient := turn_to G (orient t) h, calls := calls t @ [Setheading h]\<rparr>"

definition pensize :: "'o turtle \<Rightarrow> int \<Rightarrow> 'o turtle" where
  "pensize t w = t\<lparr>pen_width := w, calls := calls t @ [Pensize w]\<rparr>"

definition pencolor :: "'o turtle \<Rightarrow> RGBColor \<Rightarrow> 'o turtle" where
  "pencolor t c = t\<lparr>pen_color := c, calls := calls t @ [Pencolor c]\<rparr>"

definition hideturtle :: "'o turtle \<Rightarrow> 'o turtle" where
  "hideturtle t = t\<lparr>isvisible := False, calls := calls t @ [Hideturtle]\<rparr>"

section \<open>Drawing a composition (task1/draw\_figure.py)\<close>

datatype error = ValueError string

text \<open>
  The keyword arguments of \<^verbatim>\<open>draw\<close>, which are also the keys of the dictionary
  that \<^verbatim>\<open>generate_parameters\<close> returns. The source's \<^verbatim>\<open>size\<close> and
  \<^verbatim>\<open>position\<close> carry a suffix here.
\<close>

record parameters =
  base_elements :: int
  size_arg :: int
  color :: RGBColor
  line_width :: int
  position_arg :: "int \<times> int"

text \<open>
  \<^verbatim>\<open>_draw_petal\<close>: the pose is read, the petal is drawn, the pose is written back.
\<close>

definition draw_petal :: "'o geometry \<Rightarrow> 'o turtle \<Rightarrow> int \<Rightarrow> 'o turtle" where
  "draw_petal G turtle_instance sz =
     (let start_position = position turtle_instance;
          start_heading = heading G turtle_instance;
          was_down = isdown turtle_instance;
          t1 = penup turtle_instance;
          t2 = forward G t1 (real_of_int sz);
          t3 = pendown t2;
          t4 = left G t3 60;
          t5 = circle G t4 (real_of_int sz) 120;
          t6 = left G t5 120;
          t7 = circle G t6 (real_of_int sz) 120;
          t8 = penup t7;
          t9 = goto t8 start_position;
          t10 = setheading G t9 start_heading
      in if was_down then pendown t10 else t10)"

text \<open>
  The body of the loop \<^verbatim>\<open>for index in range(base_elements)\<close> and the loop itself,
  a left fold over the indices.
\<close>

definition petal_step :: "'o geometry \<Rightarrow> real \<Rightarrow> int \<Rightarrow> 'o turtle \<Rightarrow> nat \<Rightarrow> 'o turtle" where
  "petal_step G rotation_angle sz t index =
     draw_petal G (setheading G t (rotation_angle * real index)) sz"

definition petal_loop :: "'o geometry \<Rightarrow> real \<Rightarrow> int \<Rightarrow> nat \<Rightarrow> 'o turtle \<Rightarrow> 'o turtle" where
  "petal_loop G rotation_angle sz n t = foldl (petal_step G rotation_angle sz) t [0..<n]"

text \<open>
  \<^verbatim>\<open>draw\<close> mutates the turtle and may raise. The model returns the raised error,
  if any, together with the turtle as the call leaves it.
\<close>

definition draw :: "'o geometry \<Rightarrow> 'o turtle \<Rightarrow> parameters \<Rightarrow> error option \<times> 'o turtle" where
  "draw G t p =
     (if \<not> (3 \<le> base_elements p \<and> base_elements p \<le> 15)
      then (Some (ValueError ''Parameter 'base_elements' must be in range 3..15.''), t)
      else if \<not> (1 \<le> line_width p \<and> line_width p \<le> 5)
      then (Some (ValueError ''Parameter 'line_width' must be in range 1..5.''), t)
      else
        let original_state = (isdown t, position t, heading G t);
            t1 = penup t;
            t2 = goto t1 (real_of_int (fst (position_arg p)), real_of_int (snd (position_arg p)));
            t3 = pendown t2;
            t4 = pensize t3 (line_width p);
            t5 = pencolor t4 (color p);
            rotation_angle = 360 / real_of_int (base_elements p);
            t6 = petal_loop G rotation_angle (size_arg p) (nat (base_elements p)) t5;
            t7 = hideturtle t6;
            was_down = fst original_state;
            original_position = fst (snd original_state);
            original_heading = snd (snd original_state);
            t8 = penup t7;
            t9 = goto t8 original_position;
            t10 = setheading G t9 original_heading
        in (None, if was_down then pendown t10 else t10))"

text \<open>
  The calls one petal issues, as the specification lists them (advance with the pen up,
  lower the pen, turn 60, arc, turn 120, arc), followed by the restoring calls. The
  theorems below compare the calls of \<open>draw_petal\<close> and \<open>draw\<close> with it.
\<close>

definition petal_calls :: "int \<Rightarrow> point \<Rightarrow> real \<Rightarrow> bool \<Rightarrow> call list" where
  "petal_calls sz start_position start_heading was_down =
     [Penup, Forward (real_of_int sz), Pendown, Left 60, Circle (real_of_int sz) 120,
      Left 120, Circle (real_of_int sz) 120,
      Penup, Goto start_position, Setheading start_heading]
     @ (if was_down then [Pendown] else [])"

text \<open>
  The strokes one petal leaves when it starts at a position with an orientation: two
  arcs, none for the advance. \<open>petal_end\<close> is the orientation after the second arc,
  from which the petal turns back.
\<close>

definition petal_strokes ::
  "'o geometry \<Rightarrow> int \<Rightarrow> point \<Rightarrow> 'o \<Rightarrow> int \<Rightarrow> RGBColor \<Rightarrow> 'o stroke list" where
  "petal_strokes G sz start_position start_orient w c =
     (let p1 = advance G start_position start_orient (real_of_int sz);
          o1 = rotate G start_orient 60;
          e1 = sweep G p1 o1 (real_of_int sz) 120
      in [Arc p1 o1 (real_of_int sz) 120 w c,
          Arc (fst e1) (rotate G (snd e1) 120) (real_of_int sz) 120 w c])"

definition petal_end :: "'o geometry \<Rightarrow> int \<Rightarrow> point \<Rightarrow> 'o \<Rightarrow> 'o" where
  "petal_end G sz start_position start_orient =
     (let p1 = advance G start_position start_orient (real_of_int sz);
          e1 = sweep G p1 (rotate G start_orient 60) (real_of_int sz) 120
      in snd (sweep G (fst e1) (rotate G (snd e1) 120) (real_of_int sz) 120))"

text \<open>
  The turtle of \<open>draw G t p\<close> when the first \<open>k\<close> petals are drawn: lines 49 to 53
  of the source, then \<open>k\<close> rounds of its loop.
\<close>

definition after_petals :: "'o geometry \<Rightarrow> 'o turtle \<Rightarrow> parameters \<Rightarrow> nat \<Rightarrow> 'o turtle" where
  "after_petals G t p k =
     petal_loop G (360 / real_of_int (base_elements p)) (size_arg p) k
       (pencolor
          (pensize
             (pendown
                (goto (penup t)
                   (real_of_int (fst (position_arg p)), real_of_int (snd (position_arg p)))))
             (line_width p))
          (color p))"

section \<open>The fixed compositions (task1/program.py)\<close>

definition COMPOSITIONS :: "parameters list" where
  "COMPOSITIONS =
     [\<lparr>base_elements = 7, size_arg = 140, color = (0, 120, 255), line_width = 2,
        position_arg = (- 260, 60)\<rparr>,
      \<lparr>base_elements = 10, size_arg = 110, color = (255, 105, 0), line_width = 3,
        position_arg = (0, - 20)\<rparr>,
      \<lparr>base_elements = 3, size_arg = 160, color = (60, 200, 120), line_width = 4,
        position_arg = (260, 80)\<rparr>]"

definition COLOR_MODE :: int where
  "COLOR_MODE = 255"

text \<open>
  The colour mode of the \<^verbatim>\<open>turtle\<close> module (1.0 when the module is loaded) and
  the flag \<^verbatim>\<open>_COLOR_MODE_SET\<close> of the script. Both scripts define
  \<^verbatim>\<open>ensure_colormode_255\<close> with the same body.
\<close>

record module_state =
  colormode :: int
  COLOR_MODE_SET :: bool

definition module_loaded :: module_state where
  "module_loaded = \<lparr>colormode = 1, COLOR_MODE_SET = False\<rparr>"

definition ensure_colormode_255 :: "module_state \<Rightarrow> module_state" where
  "ensure_colormode_255 m =
     (if \<not> COLOR_MODE_SET m then m\<lparr>colormode := COLOR_MODE, COLOR_MODE_SET := True\<rparr> else m)"

section \<open>The batch generator (task2/gen\_program.py)\<close>

definition IMAGE_COUNT :: nat where
  "IMAGE_COUNT = 100"

definition BASE_ELEMENTS_RANGE :: "int \<times> int" where
  "BASE_ELEMENTS_RANGE = (3, 15)"

definition LINE_WIDTH_RANGE :: "int \<times> int" where
  "LINE_WIDTH_RANGE = (1, 5)"

definition SIZE_RANGE :: "int \<times> int" where
  "SIZE_RANGE = (80, 180)"

definition POSITION_LIMIT_X :: int where
  "POSITION_LIMIT_X = 450"

definition POSITION_LIMIT_Y :: int where
  "POSITION_LIMIT_Y = 300"

text \<open>
  A \<^verbatim>\<open>random.Random\<close> is modelled by the stream of raw numbers it will yield.
  \<^verbatim>\<open>randint(a, b)\<close> raises on an empty range and otherwise consumes one raw
  number and reduces it into \<open>[a, b]\<close>: every value of the range is the result for some
  stream, and no other value is.
\<close>

type_synonym Random = "nat stream"

definition randint :: "Random \<Rightarrow> int \<Rightarrow> int \<Rightarrow> error + (int \<times> Random)" where
  "randint rng a b =
     (if b < a then Inl (ValueError ''empty range for randrange()'')
      else Inr (a + int (shd rng mod nat (b - a + 1)), stl rng))"

definition and_then :: "error + 'a \<Rightarrow> ('a \<Rightarrow> error + 'b) \<Rightarrow> error + 'b" where
  "and_then r f = (case r of Inl e \<Rightarrow> Inl e | Inr v \<Rightarrow> f v)"

definition generate_parameters :: "Random \<Rightarrow> error + (parameters \<times> Random)" where
  "generate_parameters rng =
     and_then (randint rng (fst BASE_ELEMENTS_RANGE) (snd BASE_ELEMENTS_RANGE))
       (\<lambda>(base_elements_v, rng1).
     and_then (randint rng1 (fst SIZE_RANGE) (snd SIZE_RANGE))
       (\<lambda>(size_v, rng2).
     and_then (randint rng2 0 255) (\<lambda>(red, rng3).
     and_then (randint rng3 0 255) (\<lambda>(green, rng4).
     and_then (randint rng4 0 255) (\<lambda>(blue, rng5).
     and_then (randint rng5 (fst LINE_WIDTH_RANGE) (snd LINE_WIDTH_RANGE))
       (\<lambda>(line_width_v, rng6).
     let max_x = max (POSITION_LIMIT_X - size_v) 0;
         max_y = max (POSITION_LIMIT_Y - size_v) 0
     in
     and_then (randint rng6 (- max_x) max_x) (\<lambda>(x, rng7).
     and_then (randint rng7 (- max_y) max_y) (\<lambda>(y, rng8).
       Inr (\<lparr>base_elements = base_elements_v, size_arg = size_v,
              color = (red, green, blue), line_width = line_width_v,
              position_arg = (x, y)\<rparr>, rng8)))))))))"

text \<open>
  The other turtle primitives \<^verbatim>\<open>main\<close> uses: a new turtle, \<^verbatim>\<open>clear\<close>
  (the drawings go, the pose stays) and \<^verbatim>\<open>home\<close>, which in the library is
  \<^verbatim>\<open>goto(0, 0)\<close> followed by \<^verbatim>\<open>setheading(0)\<close>.
\<close>

definition Turtle :: "'o geometry \<Rightarrow> 'o turtle" where
  "Turtle G = \<lparr>position = (0, 0), orient = east G, isdown = True, pen_width = 1,
              pen_color = (0, 0, 0), isvisible = True, strokes = [], calls = []\<rparr>"

definition clear :: "'o turtle \<Rightarrow> 'o turtle" where
  "clear t = t\<lparr>strokes := [], calls := calls t @ [Clear]\<rparr>"

definition home :: "'o geometry \<Rightarrow> 'o turtle \<Rightarrow> 'o turtle" where
  "home G t =
     t\<lparr>position := (0, 0), orient := turn_to G (orient t) 0,
       strokes := (if isdown t
                   then strokes t @ [Line (position t) (0, 0) (pen_width t) (pen_color t)]
                   else strokes t),
       calls := calls t @ [Home]\<rparr>"

text \<open>
  The state of the loop of \<^verbatim>\<open>main\<close>: the random source, the turtle, the lines
  printed (one sampled dictionary per line), the files written (the path and the strokes
  on the canvas at that moment) and \<^verbatim>\<open>last_parameters\<close>. The export itself
  (\<^verbatim>\<open>save_canvas_png\<close>), the window and the drawing speed are outside the model:
  saving a file is recorded and never fails.
\<close>

datatype path = Img nat | Screenshot

record 'o batch =
  rng :: Random
  artist :: "'o turtle"
  printed :: "parameters list"
  saved :: "(path \<times> 'o stroke list) list"
  last_parameters :: "parameters option"

text \<open>
  One iteration, for one \<^verbatim>\<open>index\<close>. An exception leaves the loop; the state is
  the one reached when it was raised.
\<close>

definition iteration :: "'o geometry \<Rightarrow> 'o batch \<Rightarrow> nat \<Rightarrow> error option \<times> 'o batch" where
  "iteration G s index =
     (let a1 = clear (artist s);
          a2 = penup a1;
          a3 = home G a2;
          a4 = pendown a3
      in case generate_parameters (rng s) of
           Inl e \<Rightarrow> (Some e, s\<lparr>artist := a4\<rparr>)
         | Inr (parameters, rng') \<Rightarrow>
             (let s1 = s\<lparr>rng := rng', artist := a4, printed := printed s @ [parameters],
                         last_parameters := Some parameters\<rparr>
              in case draw G a4 parameters of
                   (Some e, a5) \<Rightarrow> (Some e, s1\<lparr>artist := a5\<rparr>)
                 | (None, a5) \<Rightarrow>
                     (None, s1\<lparr>artist := a5, saved := saved s1 @ [(Img index, strokes a5)]\<rparr>)))"

fun batch_loop :: "'o geometry \<Rightarrow> nat list \<Rightarrow> 'o batch \<Rightarrow> error option \<times> 'o batch" where
  "batch_loop G [] s = (None, s)"
| "batch_loop G (index # rest) s =
     (case iteration G s index of
        (Some e, s') \<Rightarrow> (Some e, s')
      | (None, s') \<Rightarrow> batch_loop G rest s')"

text \<open>
  What \<^verbatim>\<open>main\<close> finds when it starts: the state of the modules, the shared
  generator of the \<^verbatim>\<open>random\<close> module and the entropy a new
  \<^verbatim>\<open>random.Random()\<close> seeds itself from. What it leaves: those, and the state of
  its loop.
\<close>

record environment =
  modules :: module_state
  shared_random :: Random
  entropy :: Random

record 'o outcome =
  modules_after :: module_state
  shared_random_after :: Random
  loop_state :: "'o batch"

text \<open>
  \<^verbatim>\<open>main\<close>, with the number of images as a parameter \<open>count\<close>. The generator
  that \<^verbatim>\<open>seed(n)\<close> yields is computed by the library and is the parameter
  \<open>seeded\<close>; \<open>seed_arg\<close> is \<^verbatim>\<open>args.seed\<close>.
\<close>

definition run ::
  "(int \<Rightarrow> Random) \<Rightarrow> 'o geometry \<Rightarrow> nat \<Rightarrow> int option \<Rightarrow> environment
     \<Rightarrow> error option \<times> 'o outcome" where
  "run seeded G count seed_arg env =
     (let shared = (case seed_arg of None \<Rightarrow> shared_random env | Some n \<Rightarrow> seeded n);
          rng0 = entropy env;
          rng1 = (case seed_arg of None \<Rightarrow> rng0 | Some n \<Rightarrow> seeded n);
          m = ensure_colormode_255 (modules env);
          artist0 = hideturtle (Turtle G);
          s0 = \<lparr>rng = rng1, artist = artist0, printed = [], saved = [],
                 last_parameters = None\<rparr>
      in case batch_loop G [1..<count + 1] s0 of
           (Some e, s) \<Rightarrow>
             (Some e, \<lparr>modules_after = m, shared_random_after = shared, loop_state = s\<rparr>)
         | (None, s) \<Rightarrow>
             (let s' = (case last_parameters s of
                          None \<Rightarrow> s
                        | Some _ \<Rightarrow> s\<lparr>saved := saved s @ [(Screenshot, strokes (artist s))]\<rparr>)
              in (None, \<lparr>modules_after = m, shared_random_after = shared,
                         loop_state = s'\<lparr>artist := hideturtle (artist s')\<rparr>\<rparr>)))"

definition main ::
  "(int \<Rightarrow> Random) \<Rightarrow> 'o geometry \<Rightarrow> int option \<Rightarrow> environment
     \<Rightarrow> error option \<times> 'o outcome" where
  "main seeded G seed_arg env = run seeded G IMAGE_COUNT seed_arg env"

text \<open>
  The configurations that \<open>n\<close> successive calls of \<^verbatim>\<open>generate_parameters\<close>
  yield from a random source.
\<close>

fun samples :: "nat \<Rightarrow> Random \<Rightarrow> parameters list" where
  "samples 0 r = []"
| "samples (Suc n) r =
     (case generate_parameters r of
        Inl e \<Rightarrow> []
      | Inr (p, r') \<Rightarrow> p # samples n r')"

section \<open>Concrete instances\<close>

text \<open>
  An exact surface: the orientation is the heading in degrees, the motions are those of
  the plane, and \<^verbatim>\<open>setheading\<close> reads back the heading it is given. And a linear
  congruential seeding.
\<close>

definition reduce360 :: "real \<Rightarrow> real" where
  "reduce360 h = h - 360 * of_int \<lfloor>h / 360\<rfloor>"

definition plane :: "real geometry" where
  "plane =
     \<lparr>east = 0,
      advance = (\<lambda>(x, y) h d. (x + d * cos (h * pi / 180), y + d * sin (h * pi / 180))),
      rotate = (\<lambda>h a. reduce360 (h + a)),
      sweep = (\<lambda>(x, y) h r e.
                 ((x - r * sin (h * pi / 180) + r * sin ((h + e) * pi / 180),
                   y + r * cos (h * pi / 180) - r * cos ((h + e) * pi / 180)),
                  reduce360 (h + e))),
      turn_to = (\<lambda>h requested. requested),
      reading = (\<lambda>h. h)\<rparr>"

definition congruential :: "int \<Rightarrow> Random" where
  "congruential n = siterate (\<lambda>x. (1103515245 * x + 12345) mod 2147483648) (nat \<bar>n\<bar>)"

text \<open>
  Two transcripts of the standard library (CPython 3.11, \<^verbatim>\<open>turtle.TNavigator\<close>, the
  class that holds position and orientation). The orientation is the library's vector
  \<^verbatim>\<open>_orient\<close>, a pair of doubles, written with the digits Python prints for them.
  A transcript lists, for the orientations one run goes through, what the library
  returned: \<open>readings\<close> for \<^verbatim>\<open>heading()\<close>, \<open>rotations\<close> for
  \<^verbatim>\<open>left(angle)\<close>, \<open>sweeps\<close> for \<^verbatim>\<open>circle(radius, extent)\<close> and \<open>turns\<close>
  for \<^verbatim>\<open>setheading(heading)\<close>. Off the run the functions are arbitrary (the
  orientation stays, the reading is 0). Positions are not recorded: \<open>advance\<close> is the
  library's \<open>position + distance * orientation\<close> in exact arithmetic and \<open>sweep\<close> leaves
  the position.

  \<open>petal_run\<close>: a new navigator, \<^verbatim>\<open>left(58.00000000005)\<close>, then the calls of
  \<^verbatim>\<open>_draw_petal\<close> with size 140. \<^verbatim>\<open>heading()\<close> returns 58.0000000001 before
  and 58.0000000002 after.

  \<open>draw_run\<close>: a new navigator, \<^verbatim>\<open>left(9.00000000035)\<close>, then the calls of
  \<^verbatim>\<open>draw\<close> with 3 petals of size 160 at (260, 80). \<^verbatim>\<open>heading()\<close> returns
  9.0000000003 before and 9.0000000004 after; after \<^verbatim>\<open>setheading(0)\<close> of the first
  slot it returns 0.0000000001.
\<close>

type_synonym Vec2D = "real \<times> real"

definition noted :: "('k \<times> 'v) list \<Rightarrow> 'k \<Rightarrow> 'v \<Rightarrow> 'v" where
  "noted table k otherwise = (case map_of table k of Some v \<Rightarrow> v | None \<Rightarrow> otherwise)"

definition transcript ::
  "(Vec2D \<times> real) list \<Rightarrow> ((Vec2D \<times> real) \<times> Vec2D) list \<Rightarrow>
   ((Vec2D \<times> real \<times> real) \<times> Vec2D) list \<Rightarrow> ((Vec2D \<times> real) \<times> Vec2D) list \<Rightarrow>
   Vec2D geometry" where
  "transcript readings rotations sweeps turns =
     \<lparr>east = (1, 0),
      advance = (\<lambda>p v d. (fst p + d * fst v, snd p + d * snd v)),
      rotate = (\<lambda>v a. noted rotations (v, a) v),
      sweep = (\<lambda>p v r e. (p, noted sweeps (v, r, e) v)),
      turn_to = (\<lambda>v h. noted turns (v, h) v),
      reading = (\<lambda>v. noted readings v 0)\<rparr>"


definition draw_run :: "Vec2D geometry" where
  "draw_run = transcript
     [((0.9876883405941821, 0.1564344650462643), 9.0000000003),
      ((0.9999999999999999, 0.0000000000008728018308090668), 0.0000000001),
      ((- 0.4999999999992443, 0.8660254037848745), 120),
      ((- 0.4999999999992441, - 0.8660254037848741), 240),
      ((0.987688340594181, 0.1564344650462644), 9.0000000004)]
     [(((0.9999999999999999, 0.0000000000008728018308090668), 60), (0.4999999999992441, 0.8660254037848749)),
      (((- 0.9999999999999999, - 0.0000000000008726908085066043), 120), (0.5000000000007555, - 0.8660254037840023)),
      (((- 0.4999999999992443, 0.8660254037848745), 60), (- 0.9999999999999996, 0.0000000000008724687639016793)),
      (((0.49999999999924394, - 0.8660254037848741), 120), (0.5000000000007554, 0.8660254037840015)),
      (((- 0.4999999999992441, - 0.8660254037848741), 60), (0.5000000000007551, - 0.8660254037840018)),
      (((0.49999999999924394, 0.8660254037848741), 120), (- 0.9999999999999991, - 0.0000000000008723022304479855))]
     [(((0.4999999999992441, 0.8660254037848749), 160, 120), (- 0.9999999999999999, - 0.0000000000008726908085066043)),
      (((0.5000000000007555, - 0.8660254037840023), 160, 120), (0.4999999999992441, 0.8660254037848746)),
      (((- 0.9999999999999996, 0.0000000000008724687639016793), 160, 120), (0.49999999999924394, - 0.8660254037848741)),
      (((0.5000000000007554, 0.8660254037840015), 160, 120), (- 0.9999999999999992, 0.0000000000008728157085968746)),
      (((0.5000000000007551, - 0.8660254037840018), 160, 120), (0.49999999999924394, 0.8660254037848741)),
      (((- 0.9999999999999991, - 0.0000000000008723022304479855), 160, 120), (0.500000000000755, - 0.8660254037840017))]
     [(((0.9876883405941821, 0.1564344650462643), 0), (0.9999999999999999, 0.0000000000008728018308090668)),
      (((0.4999999999992441, 0.8660254037848746), 0.0000000001), (0.9999999999999996, 0.0000000000026180169143685816)),
      (((0.9999999999999996, 0.0000000000026180169143685816), 120), (- 0.4999999999992443, 0.8660254037848745)),
      (((- 0.9999999999999992, 0.0000000000008728157085968746), 120), (- 0.4999999999992438, 0.8660254037848744)),
      (((- 0.4999999999992438, 0.8660254037848744), 240), (- 0.4999999999992441, - 0.8660254037848741)),
      (((0.500000000000755, - 0.8660254037840017), 240), (- 0.499999999999244, - 0.866025403784874)),
      (((- 0.499999999999244, - 0.866025403784874), 9.0000000003), (0.987688340594181, 0.1564344650462644))]"



section \<open>The primitives, field by field\<close>

lemma penup_sel:
  "position (penup t) = position t"
  "orient (penup t) = orient t"
  "isdown (penup t) = False"
  "pen_width (penup t) = pen_width t"
  "pen_color (penup t) = pen_color t"
  "isvisible (penup t) = isvisible t"
  "strokes (penup t) = strokes t"
  "calls (penup t) = calls t @ [Penup]"
  by (simp_all add: penup_def)

lemma pendown_sel:
  "position (pendown t) = position t"
  "orient (pendown t) = orient t"
  "isdown (pendown t) = True"
  "pen_width (pendown t) = pen_width t"
  "pen_color (pendown t) = pen_color t"
  "isvisible (pendown t) = isvisible t"
  "strokes (pendown t) = strokes t"
  "calls (pendown t) = calls t @ [Pendown]"
  by (simp_all add: pendown_def)

lemma goto_sel:
  "position (goto t p) = p"
  "orient (goto t p) = orient t"
  "isdown (goto t p) = isdown t"
  "pen_width (goto t p) = pen_width t"
  "pen_color (goto t p) = pen_color t"
  "isvisible (goto t p) = isvisible t"
  "strokes (goto t p) = (if isdown t then strokes t @ [Line (position t) p (pen_width t) (pen_color t)] else strokes t)"
  "calls (goto t p) = calls t @ [Goto p]"
  by (simp_all add: goto_def)

lemma forward_sel:
  "position (forward G t d) = advance G (position t) (orient t) d"
  "orient (forward G t d) = orient t"
  "isdown (forward G t d) = isdown t"
  "pen_width (forward G t d) = pen_width t"
  "pen_color (forward G t d) = pen_color t"
  "isvisible (forward G t d) = isvisible t"
  "strokes (forward G t d) = (if isdown t then strokes t @ [Line (position t) (advance G (position t) (orient t) d) (pen_width t) (pen_color t)] else strokes t)"
  "calls (forward G t d) = calls t @ [Forward d]"
  by (simp_all add: forward_def)

lemma left_sel:
  "position (left G t a) = position t"
  "orient (left G t a) = rotate G (orient t) a"
  "isdown (left G t a) = isdown t"
  "pen_width (left G t a) = pen_width t"
  "pen_color (left G t a) = pen_color t"
  "isvisible (left G t a) = isvisible t"
  "strokes (left G t a) = strokes t"
  "calls (left G t a) = calls t @ [Left a]"
  by (simp_all add: left_def)

lemma circle_sel:
  "position (circle G t r e) = fst (sweep G (position t) (orient t) r e)"
  "orient (circle G t r e) = snd (sweep G (position t) (orient t) r e)"
  "isdown (circle G t r e) = isdown t"
  "pen_width (circle G t r e) = pen_width t"
  "pen_color (circle G t r e) = pen_color t"
  "isvisible (circle G t r e) = isvisible t"
  "strokes (circle G t r e) = (if isdown t then strokes t @ [Arc (position t) (orient t) r e (pen_width t) (pen_color t)] else strokes t)"
  "calls (circle G t r e) = calls t @ [Circle r e]"
  by (simp_all add: circle_def)

lemma setheading_sel:
  "position (setheading G t h) = position t"
  "orient (setheading G t h) = turn_to G (orient t) h"
  "isdown (setheading G t h) = isdown t"
  "pen_width (setheading G t h) = pen_width t"
  "pen_color (setheading G t h) = pen_color t"
  "isvisible (setheading G t h) = isvisible t"
  "strokes (setheading G t h) = strokes t"
  "calls (setheading G t h) = calls t @ [Setheading h]"
  by (simp_all add: setheading_def)

lemma pensize_sel:
  "position (pensize t w) = position t"
  "orient (pensize t w) = orient t"
  "isdown (pensize t w) = isdown t"
  "pen_width (pensize t w) = w"
  "pen_color (pensize t w) = pen_color t"
  "isvisible (pensize t w) = isvisible t"
  "strokes (pensize t w) = strokes t"
  "calls (pensize t w) = calls t @ [Pensize w]"
  by (simp_all add: pensize_def)

lemma pencolor_sel:
  "position (pencolor t c) = position t"
  "orient (pencolor t c) = orient t"
  "isdown (pencolor t c) = isdown t"
  "pen_width (pencolor t c) = pen_width t"
  "pen_color (pencolor t c) = c"
  "isvisible (pencolor t c) = isvisible t"
  "strokes (pencolor t c) = strokes t"
  "calls (pencolor t c) = calls t @ [Pencolor c]"
  by (simp_all add: pencolor_def)

lemma hideturtle_sel:
  "position (hideturtle t) = position t"
  "orient (hideturtle t) = orient t"
  "isdown (hideturtle t) = isdown t"
  "pen_width (hideturtle t) = pen_width t"
  "pen_color (hideturtle t) = pen_color t"
  "isvisible (hideturtle t) = False"
  "strokes (hideturtle t) = strokes t"
  "calls (hideturtle t) = calls t @ [Hideturtle]"
  by (simp_all add: hideturtle_def)

lemmas prim_sel = penup_sel pendown_sel goto_sel forward_sel left_sel circle_sel
  setheading_sel pensize_sel pencolor_sel hideturtle_sel

section \<open>Properties of the petal\<close>

lemma draw_petal_position: "position (draw_petal G t sz) = position t"
  unfolding draw_petal_def Let_def by (simp add: prim_sel)

lemma draw_petal_isdown: "isdown (draw_petal G t sz) = isdown t"
  unfolding draw_petal_def Let_def by (simp add: prim_sel)

lemma draw_petal_pen_width: "pen_width (draw_petal G t sz) = pen_width t"
  unfolding draw_petal_def Let_def by (simp add: prim_sel)

lemma draw_petal_pen_color: "pen_color (draw_petal G t sz) = pen_color t"
  unfolding draw_petal_def Let_def by (simp add: prim_sel)

lemma draw_petal_isvisible: "isvisible (draw_petal G t sz) = isvisible t"
  unfolding draw_petal_def Let_def by (simp add: prim_sel)

lemma draw_petal_orient:
  "orient (draw_petal G t sz) =
     turn_to G (petal_end G sz (position t) (orient t)) (heading G t)"
  unfolding draw_petal_def Let_def by (simp add: prim_sel petal_end_def Let_def)

lemma draw_petal_calls:
  "calls (draw_petal G t sz) = calls t @ petal_calls sz (position t) (heading G t) (isdown t)"
  unfolding draw_petal_def Let_def by (simp add: prim_sel petal_calls_def)

lemma draw_petal_strokes:
  "strokes (draw_petal G t sz) =
     strokes t @ petal_strokes G sz (position t) (orient t) (pen_width t) (pen_color t)"
  unfolding draw_petal_def Let_def by (simp add: prim_sel petal_strokes_def Let_def)

lemma petal_step_sel:
  "position (petal_step G a sz t i) = position t"
  "orient (petal_step G a sz t i) =
     turn_to G (petal_end G sz (position t) (orient (setheading G t (a * real i))))
       (heading G (setheading G t (a * real i)))"
  "isdown (petal_step G a sz t i) = isdown t"
  "pen_width (petal_step G a sz t i) = pen_width t"
  "pen_color (petal_step G a sz t i) = pen_color t"
  "isvisible (petal_step G a sz t i) = isvisible t"
  "strokes (petal_step G a sz t i) =
     strokes t @ petal_strokes G sz (position t) (orient (setheading G t (a * real i)))
                  (pen_width t) (pen_color t)"
  "calls (petal_step G a sz t i) =
     calls t @ Setheading (a * real i)
               # petal_calls sz (position t) (heading G (setheading G t (a * real i))) (isdown t)"
  unfolding petal_step_def
  by (simp_all add: draw_petal_position draw_petal_orient draw_petal_isdown
      draw_petal_pen_width draw_petal_pen_color draw_petal_isvisible draw_petal_calls
      draw_petal_strokes setheading_sel)

section \<open>Properties of the loop over the petals and of draw\<close>

lemma petal_loop_0: "petal_loop G a sz 0 t = t"
  by (simp add: petal_loop_def)

lemma petal_loop_Suc:
  "petal_loop G a sz (Suc n) t = petal_step G a sz (petal_loop G a sz n t) n"
  by (simp add: petal_loop_def)

lemma petal_loop_position: "position (petal_loop G a sz n t) = position t"
  by (induction n) (simp_all add: petal_loop_0 petal_loop_Suc petal_step_sel)

lemma petal_loop_isdown: "isdown (petal_loop G a sz n t) = isdown t"
  by (induction n) (simp_all add: petal_loop_0 petal_loop_Suc petal_step_sel)

lemma petal_loop_pen_width: "pen_width (petal_loop G a sz n t) = pen_width t"
  by (induction n) (simp_all add: petal_loop_0 petal_loop_Suc petal_step_sel)

lemma petal_loop_pen_color: "pen_color (petal_loop G a sz n t) = pen_color t"
  by (induction n) (simp_all add: petal_loop_0 petal_loop_Suc petal_step_sel)

lemma petal_loop_isvisible: "isvisible (petal_loop G a sz n t) = isvisible t"
  by (induction n) (simp_all add: petal_loop_0 petal_loop_Suc petal_step_sel)

lemmas petal_loop_frame = petal_loop_position petal_loop_isdown petal_loop_pen_width
  petal_loop_pen_color petal_loop_isvisible

lemma petal_loop_orient_Suc:
  "orient (petal_loop G a sz (Suc n) t) =
     turn_to G
       (petal_end G sz (position t) (turn_to G (orient (petal_loop G a sz n t)) (a * real n)))
       (reading G (turn_to G (orient (petal_loop G a sz n t)) (a * real n)))"
  by (simp add: petal_loop_Suc petal_step_sel petal_loop_frame setheading_sel heading_def)

lemma petal_loop_calls:
  "calls (petal_loop G a sz n t) =
     calls t @ concat (map (\<lambda>index.
         Setheading (a * real index)
         # petal_calls sz (position t)
             (heading G (setheading G (petal_loop G a sz index t) (a * real index))) (isdown t))
       [0..<n])"
  by (induction n) (simp_all add: petal_loop_0 petal_loop_Suc petal_step_sel petal_loop_frame)

lemma petal_loop_strokes:
  "strokes (petal_loop G a sz n t) =
     strokes t @ concat (map (\<lambda>index.
         petal_strokes G sz (position t)
           (orient (setheading G (petal_loop G a sz index t) (a * real index)))
           (pen_width t) (pen_color t))
       [0..<n])"
  by (induction n) (simp_all add: petal_loop_0 petal_loop_Suc petal_step_sel petal_loop_frame)

text \<open>
  The headings \<open>draw\<close> assigns to the slots lie in \<open>[0, 360)\<close>: the library's
  reduction modulo 360 does not move them.
\<close>

lemma slot_heading_range:
  assumes "index < n"
  shows "0 \<le> 360 / real n * real index \<and> 360 / real n * real index < 360"
proof -
  have n: "0 < real n" using assms by simp
  have "real index < real n" using assms by simp
  then have "360 * real index < 360 * real n" by simp
  then have "360 * real index / real n < 360" using n by (simp add: pos_divide_less_eq)
  moreover have "0 \<le> 360 * real index / real n" by simp
  ultimately show ?thesis by simp
qed

lemma after_petals_sel:
  "position (after_petals G t p k) =
     (real_of_int (fst (position_arg p)), real_of_int (snd (position_arg p)))"
  "isdown (after_petals G t p k) = True"
  "pen_width (after_petals G t p k) = line_width p"
  "pen_color (after_petals G t p k) = color p"
  "isvisible (after_petals G t p k) = isvisible t"
  unfolding after_petals_def by (simp_all add: petal_loop_frame prim_sel)

lemma after_petals_calls:
  "calls (after_petals G t p k) =
     calls t
     @ [Penup, Goto (real_of_int (fst (position_arg p)), real_of_int (snd (position_arg p))),
        Pendown, Pensize (line_width p), Pencolor (color p)]
     @ concat (map (\<lambda>index.
           Setheading (360 / real_of_int (base_elements p) * real index)
           # petal_calls (size_arg p)
               (real_of_int (fst (position_arg p)), real_of_int (snd (position_arg p)))
               (heading G (setheading G (after_petals G t p index)
                  (360 / real_of_int (base_elements p) * real index))) True)
         [0..<k])"
  unfolding after_petals_def by (simp add: petal_loop_calls prim_sel)

lemma after_petals_strokes:
  "strokes (after_petals G t p k) =
     strokes t
     @ concat (map (\<lambda>index.
           petal_strokes G (size_arg p)
               (real_of_int (fst (position_arg p)), real_of_int (snd (position_arg p)))
               (orient (setheading G (after_petals G t p index)
                  (360 / real_of_int (base_elements p) * real index)))
               (line_width p) (color p))
         [0..<k])"
  unfolding after_petals_def by (simp add: petal_loop_strokes prim_sel)

lemma after_petals_0: "orient (after_petals G t p 0) = orient t"
  unfolding after_petals_def by (simp add: petal_loop_0 prim_sel)

lemma after_petals_Suc:
  "orient (after_petals G t p (Suc k)) =
     turn_to G
       (petal_end G (size_arg p)
          (real_of_int (fst (position_arg p)), real_of_int (snd (position_arg p)))
          (turn_to G (orient (after_petals G t p k))
             (360 / real_of_int (base_elements p) * real k)))
       (reading G (turn_to G (orient (after_petals G t p k))
          (360 / real_of_int (base_elements p) * real k)))"
  unfolding after_petals_def by (simp add: petal_loop_orient_Suc prim_sel)

lemma draw_valid:
  assumes "3 \<le> base_elements p" "base_elements p \<le> 15" "1 \<le> line_width p" "line_width p \<le> 5"
  shows "draw G t p =
     (None,
      let t7 = hideturtle (after_petals G t p (nat (base_elements p)));
          t10 = setheading G (goto (penup t7) (position t)) (heading G t)
      in if isdown t then pendown t10 else t10)"
  using assms unfolding draw_def after_petals_def Let_def by simp

lemma draw_sel:
  assumes "3 \<le> base_elements p" "base_elements p \<le> 15" "1 \<le> line_width p" "line_width p \<le> 5"
  shows "fst (draw G t p) = None"
    and "position (snd (draw G t p)) = position t"
    and "isdown (snd (draw G t p)) = isdown t"
    and "pen_width (snd (draw G t p)) = line_width p"
    and "pen_color (snd (draw G t p)) = color p"
    and "isvisible (snd (draw G t p)) = False"
    and "orient (snd (draw G t p)) =
           turn_to G (orient (after_petals G t p (nat (base_elements p)))) (heading G t)"
  unfolding draw_valid [OF assms] Let_def
  by (simp_all add: prim_sel after_petals_sel)

lemma draw_calls:
  assumes "3 \<le> base_elements p" "base_elements p \<le> 15" "1 \<le> line_width p" "line_width p \<le> 5"
  shows "calls (snd (draw G t p)) =
     calls t
     @ [Penup, Goto (real_of_int (fst (position_arg p)), real_of_int (snd (position_arg p))),
        Pendown, Pensize (line_width p), Pencolor (color p)]
     @ concat (map (\<lambda>index.
           Setheading (360 / real_of_int (base_elements p) * real index)
           # petal_calls (size_arg p)
               (real_of_int (fst (position_arg p)), real_of_int (snd (position_arg p)))
               (heading G (setheading G (after_petals G t p index)
                  (360 / real_of_int (base_elements p) * real index))) True)
         [0..<nat (base_elements p)])
     @ [Hideturtle, Penup, Goto (position t), Setheading (heading G t)]
     @ (if isdown t then [Pendown] else [])"
  unfolding draw_valid [OF assms] Let_def
  by (simp add: prim_sel after_petals_calls)

lemma draw_strokes:
  assumes "3 \<le> base_elements p" "base_elements p \<le> 15" "1 \<le> line_width p" "line_width p \<le> 5"
  shows "strokes (snd (draw G t p)) =
     strokes t
     @ concat (map (\<lambda>index.
           petal_strokes G (size_arg p)
               (real_of_int (fst (position_arg p)), real_of_int (snd (position_arg p)))
               (orient (setheading G (after_petals G t p index)
                  (360 / real_of_int (base_elements p) * real index)))
               (line_width p) (color p))
         [0..<nat (base_elements p)])"
  unfolding draw_valid [OF assms] Let_def
  by (simp add: prim_sel after_petals_sel after_petals_strokes)

section \<open>Properties of the sampler and of the batch loop\<close>

lemma randint_range:
  assumes "a \<le> b"
  shows "\<exists>v. randint r a b = Inr (v, stl r) \<and> a \<le> v \<and> v \<le> b"
proof -
  have pos: "0 < nat (b - a + 1)" using assms by simp
  have "shd r mod nat (b - a + 1) < nat (b - a + 1)"
    using pos by (rule mod_less_divisor)
  then have "int (shd r mod nat (b - a + 1)) < b - a + 1" by linarith
  then show ?thesis using assms by (simp add: randint_def)
qed

lemma generate_parameters_total:
  "\<exists>p r'. generate_parameters r = Inr (p, r') \<and>
     3 \<le> base_elements p \<and> base_elements p \<le> 15 \<and>
     80 \<le> size_arg p \<and> size_arg p \<le> 180 \<and>
     0 \<le> fst (color p) \<and> fst (color p) \<le> 255 \<and>
     0 \<le> fst (snd (color p)) \<and> fst (snd (color p)) \<le> 255 \<and>
     0 \<le> snd (snd (color p)) \<and> snd (snd (color p)) \<le> 255 \<and>
     1 \<le> line_width p \<and> line_width p \<le> 5 \<and>
     \<bar>fst (position_arg p)\<bar> \<le> max (450 - size_arg p) 0 \<and>
     \<bar>snd (position_arg p)\<bar> \<le> max (300 - size_arg p) 0"
proof -
  obtain n where n: "randint r 3 15 = Inr (n, stl r)" "3 \<le> n" "n \<le> 15"
    using randint_range [of 3 15 r] by auto
  obtain s where s: "randint (stl r) 80 180 = Inr (s, stl (stl r))" "80 \<le> s" "s \<le> 180"
    using randint_range [of 80 180 "stl r"] by auto
  define r2 where "r2 = stl (stl r)"
  obtain red where red: "randint r2 0 255 = Inr (red, stl r2)" "0 \<le> red" "red \<le> 255"
    using randint_range [of 0 255 r2] by auto
  obtain green where green:
    "randint (stl r2) 0 255 = Inr (green, stl (stl r2))" "0 \<le> green" "green \<le> 255"
    using randint_range [of 0 255 "stl r2"] by auto
  define r4 where "r4 = stl (stl r2)"
  obtain blue where blue: "randint r4 0 255 = Inr (blue, stl r4)" "0 \<le> blue" "blue \<le> 255"
    using randint_range [of 0 255 r4] by auto
  obtain w where w: "randint (stl r4) 1 5 = Inr (w, stl (stl r4))" "1 \<le> w" "w \<le> 5"
    using randint_range [of 1 5 "stl r4"] by auto
  define r6 where "r6 = stl (stl r4)"
  define max_x where "max_x = max (450 - s) 0"
  define max_y where "max_y = max (300 - s) 0"
  have "- max_x \<le> max_x" and "- max_y \<le> max_y"
    by (simp_all add: max_x_def max_y_def)
  then obtain x y where x: "randint r6 (- max_x) max_x = Inr (x, stl r6)" "- max_x \<le> x" "x \<le> max_x"
    and y: "randint (stl r6) (- max_y) max_y = Inr (y, stl (stl r6))" "- max_y \<le> y" "y \<le> max_y"
    using randint_range [of "- max_x" max_x r6] randint_range [of "- max_y" max_y "stl r6"]
    by auto
  have "generate_parameters r =
          Inr (\<lparr>base_elements = n, size_arg = s, color = (red, green, blue), line_width = w,
                 position_arg = (x, y)\<rparr>, stl (stl r6))"
    unfolding generate_parameters_def BASE_ELEMENTS_RANGE_def SIZE_RANGE_def
      LINE_WIDTH_RANGE_def POSITION_LIMIT_X_def POSITION_LIMIT_Y_def
    using n(1) s(1) red(1) green(1) blue(1) w(1) x(1) y(1)
    by (simp add: and_then_def Let_def r2_def [symmetric] r4_def [symmetric] r6_def [symmetric]
        max_x_def [symmetric] max_y_def [symmetric])
  moreover have "\<bar>x\<bar> \<le> max_x" and "\<bar>y\<bar> \<le> max_y"
    using x(2,3) y(2,3) by simp_all
  ultimately show ?thesis
    using n(2,3) s(2,3) red(2,3) green(2,3) blue(2,3) w(2,3)
    by (simp add: max_x_def max_y_def)
qed

lemma length_samples: "length (samples n r) = n"
proof (induction n arbitrary: r)
  case 0
  show ?case by simp
next
  case (Suc n)
  obtain p r' where "generate_parameters r = Inr (p, r')"
    using generate_parameters_total [of r] by blast
  then show ?case using Suc.IH [of r'] by simp
qed

lemma iteration_printed:
  "fst (iteration G s index) = None \<and>
   (\<exists>p r'. generate_parameters (rng s) = Inr (p, r') \<and>
      rng (snd (iteration G s index)) = r' \<and>
      printed (snd (iteration G s index)) = printed s @ [p])"
proof -
  obtain p r' where g: "generate_parameters (rng s) = Inr (p, r')"
    and v: "3 \<le> base_elements p" "base_elements p \<le> 15" "1 \<le> line_width p" "line_width p \<le> 5"
    using generate_parameters_total [of "rng s"] by blast
  define a4 where "a4 = pendown (home G (penup (clear (artist s))))"
  have d: "draw G a4 p = (None, snd (draw G a4 p))"
    using draw_sel(1) [OF v, of G a4] by (simp add: prod_eq_iff)
  have "iteration G s index =
          (None, s\<lparr>rng := r', artist := snd (draw G a4 p), printed := printed s @ [p],
                    last_parameters := Some p,
                    saved := saved s @ [(Img index, strokes (snd (draw G a4 p)))]\<rparr>)"
    unfolding iteration_def Let_def a4_def [symmetric]
    by (simp add: g) (subst d, simp)
  then show ?thesis using g by simp
qed

lemma batch_loop_printed:
  "fst (batch_loop G indices s) = None \<and>
   printed (snd (batch_loop G indices s)) = printed s @ samples (length indices) (rng s)"
proof (induction indices arbitrary: s)
  case Nil
  show ?case by simp
next
  case (Cons index rest)
  obtain p r' where g: "generate_parameters (rng s) = Inr (p, r')"
    and r: "rng (snd (iteration G s index)) = r'"
    and q: "printed (snd (iteration G s index)) = printed s @ [p]"
    using iteration_printed [of G s index] by blast
  have n: "fst (iteration G s index) = None"
    using iteration_printed [of G s index] by blast
  define s' where "s' = snd (iteration G s index)"
  have i: "iteration G s index = (None, s')"
    using n by (simp add: s'_def prod_eq_iff)
  have "batch_loop G (index # rest) s = batch_loop G rest s'"
    by (simp add: i)
  then show ?case
    using Cons.IH [of s'] g r q by (simp add: s'_def)
qed

lemma run_printed:
  "fst (run seeded G count seed_arg env) = None \<and>
   printed (loop_state (snd (run seeded G count seed_arg env))) =
     samples count (case seed_arg of None \<Rightarrow> entropy env | Some n \<Rightarrow> seeded n)"
proof -
  define s0 where "s0 = \<lparr>rng = (case seed_arg of None \<Rightarrow> entropy env | Some n \<Rightarrow> seeded n),
      artist = hideturtle (Turtle G), printed = [], saved = [], last_parameters = None\<rparr>"
  define indices where "indices = [1..<count + 1]"
  define s where "s = snd (batch_loop G indices s0)"
  have len: "length indices = count"
    by (simp add: indices_def)
  have b: "batch_loop G indices s0 = (None, s)"
    using batch_loop_printed [of G indices s0] by (simp add: s_def prod_eq_iff)
  have "printed s = printed s0 @ samples (length indices) (rng s0)"
    using batch_loop_printed [of G indices s0] by (simp add: s_def)
  then have p: "printed s =
      samples count (case seed_arg of None \<Rightarrow> entropy env | Some n \<Rightarrow> seeded n)"
    by (simp add: len s0_def)
  show ?thesis
    unfolding run_def Let_def s0_def [symmetric] indices_def [symmetric]
    by (simp add: b p split: option.split)
qed

section \<open>The two transcripts, evaluated\<close>



section \<open>The claims about drawing\<close>




text \<open>
  Claim C2. When \<open>base_elements\<close> is outside \<open>[3, 15]\<close> or \<open>line_width\<close> is outside
  \<open>[1, 5]\<close>, \<open>draw\<close> raises a \<open>ValueError\<close> and the turtle is the one it was
  called with: no stroke is added and no primitive has been called.
\<close>

theorem draw_rejects_invalid:
  assumes "\<not> (3 \<le> base_elements p \<and> base_elements p \<le> 15) \<or>
           \<not> (1 \<le> line_width p \<and> line_width p \<le> 5)"
  shows "fst (draw G t p) =
           Some (ValueError
             (if \<not> (3 \<le> base_elements p \<and> base_elements p \<le> 15)
              then ''Parameter 'base_elements' must be in range 3..15.''
              else ''Parameter 'line_width' must be in range 1..5.'')) \<and>
         snd (draw G t p) = t \<and>
         strokes (snd (draw G t p)) = strokes t \<and>
         calls (snd (draw G t p)) = calls t"
  using assms unfolding draw_def by auto

theorem draw_rejects_invalid_witness:
  "\<not> (3 \<le> base_elements ((COMPOSITIONS ! 0)\<lparr>base_elements := 16\<rparr>) \<and>
       base_elements ((COMPOSITIONS ! 0)\<lparr>base_elements := 16\<rparr>) \<le> 15) \<and>
   fst (draw plane (Turtle plane) ((COMPOSITIONS ! 0)\<lparr>base_elements := 16\<rparr>)) =
     Some (ValueError ''Parameter 'base_elements' must be in range 3..15.'') \<and>
   snd (draw plane (Turtle plane) ((COMPOSITIONS ! 0)\<lparr>base_elements := 16\<rparr>)) = Turtle plane \<and>
   strokes (snd (draw plane (Turtle plane) ((COMPOSITIONS ! 0)\<lparr>base_elements := 16\<rparr>))) = [] \<and>
   calls (snd (draw plane (Turtle plane) ((COMPOSITIONS ! 0)\<lparr>base_elements := 16\<rparr>))) = []"
  using draw_rejects_invalid [of "(COMPOSITIONS ! 0)\<lparr>base_elements := 16\<rparr>" plane
      "Turtle plane"]
  by (simp add: COMPOSITIONS_def Turtle_def)

text \<open>
  Claim C5. For every valid \<open>n = base_elements\<close>, \<open>draw\<close> issues, after moving to the
  centre and setting the pen, one block per \<open>index = 0, \<dots>, n - 1\<close>: the absolute
  assignment \<open>setheading (360 / n * index)\<close> followed by the calls of one petal, which
  starts at the centre with the pen down and restores the heading it read after that
  assignment; then it hides the turtle and restores the pose. No relative turn sets a
  slot. The strokes added are those of the \<open>n\<close> petals, in that order, each drawn from
  the orientation its assignment gave. At \<open>n = 3\<close> the headings are 0, 120 and 240.
\<close>

theorem draw_petals_at_slots:
  assumes "3 \<le> base_elements p" and "base_elements p \<le> 15"
    and "1 \<le> line_width p" and "line_width p \<le> 5"
  shows "calls (snd (draw G t p)) =
           calls t
           @ [Penup,
              Goto (real_of_int (fst (position_arg p)), real_of_int (snd (position_arg p))),
              Pendown, Pensize (line_width p), Pencolor (color p)]
           @ concat (map (\<lambda>index.
                 Setheading (360 / real_of_int (base_elements p) * real index)
                 # petal_calls (size_arg p)
                     (real_of_int (fst (position_arg p)), real_of_int (snd (position_arg p)))
                     (heading G (setheading G (after_petals G t p index)
                        (360 / real_of_int (base_elements p) * real index))) True)
               [0..<nat (base_elements p)])
           @ [Hideturtle, Penup, Goto (position t), Setheading (heading G t)]
           @ (if isdown t then [Pendown] else []) \<and>
         strokes (snd (draw G t p)) =
           strokes t
           @ concat (map (\<lambda>index.
                 petal_strokes G (size_arg p)
                     (real_of_int (fst (position_arg p)), real_of_int (snd (position_arg p)))
                     (orient (setheading G (after_petals G t p index)
                        (360 / real_of_int (base_elements p) * real index)))
                     (line_width p) (color p))
               [0..<nat (base_elements p)])"
  using assms by (simp add: draw_calls draw_strokes)

theorem draw_petals_at_slots_witness:
  "3 \<le> base_elements (COMPOSITIONS ! 2) \<and> base_elements (COMPOSITIONS ! 2) \<le> 15 \<and>
   1 \<le> line_width (COMPOSITIONS ! 2) \<and> line_width (COMPOSITIONS ! 2) \<le> 5 \<and>
   calls (snd (draw plane (Turtle plane) (COMPOSITIONS ! 2))) =
     [Penup, Goto (260, 80), Pendown, Pensize 4, Pencolor (60, 200, 120),
      Setheading 0,
      Penup, Forward 160, Pendown, Left 60, Circle 160 120, Left 120, Circle 160 120,
      Penup, Goto (260, 80), Setheading 0, Pendown,
      Setheading 120,
      Penup, Forward 160, Pendown, Left 60, Circle 160 120, Left 120, Circle 160 120,
      Penup, Goto (260, 80), Setheading 120, Pendown,
      Setheading 240,
      Penup, Forward 160, Pendown, Left 60, Circle 160 120, Left 120, Circle 160 120,
      Penup, Goto (260, 80), Setheading 240, Pendown,
      Hideturtle, Penup, Goto (0, 0), Setheading 0, Pendown]"
proof -
  have slots: "[0..<3] = [0, Suc 0, 2]"
    by (simp add: upt_conv_Cons)
  have exact: "heading plane (setheading plane u h) = h" for u h
    by (simp add: heading_def setheading_sel plane_def)
  show ?thesis
    using draw_petals_at_slots [of "COMPOSITIONS ! 2" plane "Turtle plane"]
    by (simp add: COMPOSITIONS_def petal_calls_def slots exact)
      (simp add: Turtle_def heading_def plane_def)
qed

text \<open>
  Claim C6. For every \<open>size > 0\<close>, \<open>draw_petal\<close> calls, from the current pose:
  pen up, forward \<open>size\<close>, pen down, left 60, an arc of radius \<open>size\<close> over 120 degrees,
  left 120, a second arc of radius \<open>size\<close> over 120 degrees; the calls that restore the
  pose follow. The advance leaves no stroke and each arc leaves one.
\<close>

theorem draw_petal_sequence:
  assumes "0 < sz"
  shows "calls (draw_petal G t sz) =
           calls t
           @ [Penup, Forward (real_of_int sz), Pendown, Left 60,
              Circle (real_of_int sz) 120, Left 120, Circle (real_of_int sz) 120]
           @ [Penup, Goto (position t), Setheading (heading G t)]
           @ (if isdown t then [Pendown] else []) \<and>
         strokes (draw_petal G t sz) =
           strokes t @ petal_strokes G sz (position t) (orient t) (pen_width t) (pen_color t)"
  by (simp add: draw_petal_calls draw_petal_strokes petal_calls_def)

theorem draw_petal_sequence_witness:
  "0 < (160::int) \<and>
   calls (draw_petal plane (Turtle plane) 160) =
     [Penup, Forward 160, Pendown, Left 60, Circle 160 120, Left 120, Circle 160 120,
      Penup, Goto (0, 0), Setheading 0, Pendown] \<and>
   length (strokes (draw_petal plane (Turtle plane) 160)) = 2"
  using draw_petal_sequence [of 160 plane "Turtle plane"]
  by (simp add: Turtle_def petal_strokes_def Let_def heading_def plane_def)




text \<open>
  Claim C8. For every valid configuration, after \<open>draw\<close> the pen colour is the
  configuration's colour and the pen width is its line width, whatever they were before
  the call: the pen style is not restored.
\<close>

theorem draw_keeps_pen_style:
  assumes "3 \<le> base_elements p" and "base_elements p \<le> 15"
    and "1 \<le> line_width p" and "line_width p \<le> 5"
  shows "pen_color (snd (draw G t p)) = color p \<and>
         pen_width (snd (draw G t p)) = line_width p"
  using assms by (simp add: draw_sel)

theorem draw_keeps_pen_style_witness:
  "3 \<le> base_elements (COMPOSITIONS ! 1) \<and> base_elements (COMPOSITIONS ! 1) \<le> 15 \<and>
   1 \<le> line_width (COMPOSITIONS ! 1) \<and> line_width (COMPOSITIONS ! 1) \<le> 5 \<and>
   pen_color (Turtle plane) = (0, 0, 0) \<and> pen_width (Turtle plane) = 1 \<and>
   pen_color (snd (draw plane (Turtle plane) (COMPOSITIONS ! 1))) = (255, 105, 0) \<and>
   pen_width (snd (draw plane (Turtle plane) (COMPOSITIONS ! 1))) = 3"
  using draw_keeps_pen_style [of "COMPOSITIONS ! 1" plane "Turtle plane"]
  by (simp add: COMPOSITIONS_def Turtle_def)




section \<open>The claims about sampling, batches and the colour mode\<close>

text \<open>
  Claim C3. For every random source, \<open>generate_parameters\<close> returns a dictionary, and in
  it \<open>base_elements\<close> is in \<open>[3, 15]\<close>, \<open>size\<close> in \<open>[80, 180]\<close>, each colour channel in
  \<open>[0, 255]\<close>, \<open>line_width\<close> in \<open>[1, 5]\<close>, and the position satisfies
  \<open>\<bar>x\<bar> \<le> max (450 - size) 0\<close> and \<open>\<bar>y\<bar> \<le> max (300 - size) 0\<close>. A bound of 0
  forces the coordinate 0; with the size at most 180 the bounds are in fact
  \<open>450 - size\<close> and \<open>300 - size\<close>, which the last two conjuncts state.
\<close>

theorem generate_parameters_in_range:
  "\<exists>p rng'. generate_parameters rng0 = Inr (p, rng') \<and>
     3 \<le> base_elements p \<and> base_elements p \<le> 15 \<and>
     80 \<le> size_arg p \<and> size_arg p \<le> 180 \<and>
     0 \<le> fst (color p) \<and> fst (color p) \<le> 255 \<and>
     0 \<le> fst (snd (color p)) \<and> fst (snd (color p)) \<le> 255 \<and>
     0 \<le> snd (snd (color p)) \<and> snd (snd (color p)) \<le> 255 \<and>
     1 \<le> line_width p \<and> line_width p \<le> 5 \<and>
     \<bar>fst (position_arg p)\<bar> \<le> max (450 - size_arg p) 0 \<and>
     \<bar>snd (position_arg p)\<bar> \<le> max (300 - size_arg p) 0 \<and>
     \<bar>fst (position_arg p)\<bar> \<le> 450 - size_arg p \<and>
     \<bar>snd (position_arg p)\<bar> \<le> 300 - size_arg p"
proof -
  obtain p rng' where "generate_parameters rng0 = Inr (p, rng')"
    and "3 \<le> base_elements p" "base_elements p \<le> 15"
    and size: "80 \<le> size_arg p" "size_arg p \<le> 180"
    and "0 \<le> fst (color p)" "fst (color p) \<le> 255"
    and "0 \<le> fst (snd (color p))" "fst (snd (color p)) \<le> 255"
    and "0 \<le> snd (snd (color p))" "snd (snd (color p)) \<le> 255"
    and "1 \<le> line_width p" "line_width p \<le> 5"
    and x: "\<bar>fst (position_arg p)\<bar> \<le> max (450 - size_arg p) 0"
    and y: "\<bar>snd (position_arg p)\<bar> \<le> max (300 - size_arg p) 0"
    using generate_parameters_total [of rng0] by blast
  moreover have "\<bar>fst (position_arg p)\<bar> \<le> 450 - size_arg p"
    using x size by simp
  moreover have "\<bar>snd (position_arg p)\<bar> \<le> 300 - size_arg p"
    using y size by simp
  ultimately show ?thesis by blast
qed

theorem generate_parameters_in_range_witness:
  "generate_parameters (sconst 0) =
     Inr (\<lparr>base_elements = 3, size_arg = 80, color = (0, 0, 0), line_width = 1,
            position_arg = (- 370, - 220)\<rparr>, sconst 0) \<and>
   (\<exists>p rng'. generate_parameters (sconst 0) = Inr (p, rng') \<and>
      \<bar>fst (position_arg p)\<bar> \<le> 450 - size_arg p \<and>
      \<bar>snd (position_arg p)\<bar> \<le> 300 - size_arg p)"
proof -
  have "generate_parameters (sconst 0) =
     Inr (\<lparr>base_elements = 3, size_arg = 80, color = (0, 0, 0), line_width = 1,
            position_arg = (- 370, - 220)\<rparr>, sconst 0)"
    by (simp add: generate_parameters_def randint_def and_then_def Let_def
        BASE_ELEMENTS_RANGE_def SIZE_RANGE_def LINE_WIDTH_RANGE_def
        POSITION_LIMIT_X_def POSITION_LIMIT_Y_def)
  moreover have "\<exists>p rng'. generate_parameters (sconst 0) = Inr (p, rng') \<and>
      \<bar>fst (position_arg p)\<bar> \<le> 450 - size_arg p \<and>
      \<bar>snd (position_arg p)\<bar> \<le> 300 - size_arg p"
    using generate_parameters_in_range [of "sconst 0"] by blast
  ultimately show ?thesis by blast
qed

text \<open>
  Claim C4. For every seed and every count, two batch runs with that seed print the same
  sequence of sampled configurations, whatever the two runs find otherwise (the entropy,
  the shared generator, the state of the modules, the geometry of the surface): the
  sequence is \<open>samples count\<close> of the seeded source, it has \<open>count\<close> entries, and
  neither run raises. The same holds of \<open>main\<close>, where the count is \<open>IMAGE_COUNT\<close>.
\<close>

theorem batch_reproducible:
  "fst (run seeded G count (Some seed) env) = None \<and>
   fst (run seeded G' count (Some seed) env') = None \<and>
   printed (loop_state (snd (run seeded G count (Some seed) env))) =
     printed (loop_state (snd (run seeded G' count (Some seed) env'))) \<and>
   printed (loop_state (snd (run seeded G count (Some seed) env))) =
     samples count (seeded seed) \<and>
   length (printed (loop_state (snd (run seeded G count (Some seed) env)))) = count \<and>
   printed (loop_state (snd (main seeded G (Some seed) env))) =
     printed (loop_state (snd (main seeded G' (Some seed) env')))"
  by (simp add: run_printed main_def length_samples)

theorem batch_reproducible_witness:
  "printed (loop_state (snd (run congruential plane 5 (Some 42)
       \<lparr>modules = module_loaded, shared_random = sconst 1, entropy = sconst 2\<rparr>))) =
   printed (loop_state (snd (run congruential draw_run 5 (Some 42)
       \<lparr>modules = ensure_colormode_255 module_loaded, shared_random = sconst 3,
        entropy = sconst 4\<rparr>))) \<and>
   length (printed (loop_state (snd (run congruential plane 5 (Some 42)
       \<lparr>modules = module_loaded, shared_random = sconst 1, entropy = sconst 2\<rparr>)))) = 5"
  using batch_reproducible [of congruential plane 5 42
      "\<lparr>modules = module_loaded, shared_random = sconst 1, entropy = sconst 2\<rparr>"
      draw_run
      "\<lparr>modules = ensure_colormode_255 module_loaded, shared_random = sconst 3,
        entropy = sconst 4\<rparr>"]
  by blast

text \<open>
  Claim C9. \<open>ensure_colormode_255\<close> is idempotent: a second call changes nothing, any
  positive number of calls gives the state one call gives, after a call the flag is set,
  a call with the flag set leaves the colour mode alone, and the first call after the
  module is loaded sets the colour mode to 255.
\<close>

theorem ensure_colormode_255_idempotent:
  "ensure_colormode_255 (ensure_colormode_255 m) = ensure_colormode_255 m \<and>
   (ensure_colormode_255 ^^ Suc n) m = ensure_colormode_255 m \<and>
   COLOR_MODE_SET (ensure_colormode_255 m) \<and>
   colormode (ensure_colormode_255 m) = (if COLOR_MODE_SET m then colormode m else 255) \<and>
   colormode (ensure_colormode_255 module_loaded) = 255"
proof -
  have once: "ensure_colormode_255 (ensure_colormode_255 k) = ensure_colormode_255 k" for k
    by (simp add: ensure_colormode_255_def)
  have "(ensure_colormode_255 ^^ Suc n) m = ensure_colormode_255 m"
  proof (induction n)
    case 0
    show ?case by simp
  next
    case (Suc n)
    have "(ensure_colormode_255 ^^ Suc (Suc n)) m =
            ensure_colormode_255 ((ensure_colormode_255 ^^ Suc n) m)"
      by simp
    then show ?case using Suc.IH once by simp
  qed
  then show ?thesis
    by (simp add: once) (simp add: ensure_colormode_255_def COLOR_MODE_def module_loaded_def)
qed

theorem ensure_colormode_255_idempotent_witness:
  "ensure_colormode_255 module_loaded = \<lparr>colormode = 255, COLOR_MODE_SET = True\<rparr> \<and>
   ensure_colormode_255 (ensure_colormode_255 module_loaded) =
     \<lparr>colormode = 255, COLOR_MODE_SET = True\<rparr> \<and>
   (ensure_colormode_255 ^^ Suc 2) module_loaded = \<lparr>colormode = 255, COLOR_MODE_SET = True\<rparr>"
proof -
  have first: "ensure_colormode_255 module_loaded = \<lparr>colormode = 255, COLOR_MODE_SET = True\<rparr>"
    by (simp add: ensure_colormode_255_def module_loaded_def COLOR_MODE_def)
  show ?thesis
    using ensure_colormode_255_idempotent [of module_loaded 2] first by simp
qed

end
